theory Spec2Isabelle
  imports Main "HOL-Library.Sublist"
begin

section \<open>Go runtime values\<close>

text \<open>
  A Go \<open>string\<close> is a sequence of bytes; it is modelled as \<open>string\<close> (a list of 8-bit
  \<open>char\<close>s). A Go \<open>error\<close> built with \<open>errors.New\<close> or \<open>fmt.Errorf\<close> is the value
  \<open>Err msg\<close> carrying its message. An index expression \<open>a[i]\<close> with \<open>i\<close> outside the
  slice raises the runtime panic "index out of range [i] with length n"; nothing in the
  modelled packages recovers from it, so it is a result of its own that every caller
  passes on.
\<close>

datatype error =
    Err string
  | IndexOutOfRange nat nat

definition index :: "'a list \<Rightarrow> nat \<Rightarrow> error + 'a" where
  "index xs i = (if i < length xs then Inr (xs ! i) else Inl (IndexOutOfRange i (length xs)))"

section \<open>Package strings\<close>

definition HasPrefix :: "string \<Rightarrow> string \<Rightarrow> bool" where
  "HasPrefix s pre = prefix pre s"

definition HasSuffix :: "string \<Rightarrow> string \<Rightarrow> bool" where
  "HasSuffix s suf = suffix suf s"

definition TrimSuffix :: "string \<Rightarrow> string \<Rightarrow> string" where
  "TrimSuffix s suf = (if HasSuffix s suf then take (length s - length suf) s else s)"

text \<open>
  \<open>strings.Split(s, sep)\<close> cuts \<open>s\<close> at every occurrence of \<open>sep\<close>, found from the left
  and not overlapping; the result has one more element than there are occurrences. With
  an empty separator Go explodes the string into its UTF-8 sequences; every call of the
  program passes a literal separator that is not empty, and the model gives one byte per
  element there. \<open>splitFrom sep cur s\<close> scans \<open>s\<close> with \<open>cur\<close> the piece read since
  the last separator.
\<close>

function splitFrom :: "string \<Rightarrow> string \<Rightarrow> string \<Rightarrow> string list" where
  "splitFrom sep cur [] = [cur]"
| "splitFrom sep cur (c # cs) =
     (if sep \<noteq> [] \<and> prefix sep (c # cs)
      then cur # splitFrom sep [] (drop (length sep) (c # cs))
      else splitFrom sep (cur @ [c]) cs)"
  by pat_completeness auto
termination
  by (relation "measure (\<lambda>(sep, cur, s). length s)") (auto simp: neq_Nil_conv)

definition Split :: "string \<Rightarrow> string \<Rightarrow> string list" where
  "Split s sep = (if sep = [] then map (\<lambda>c. [c]) s else splitFrom sep [] s)"

text \<open>
  \<open>strings.TrimSpace\<close> removes the leading and the trailing white space of a string, as
  \<open>unicode.IsSpace\<close> defines it. \<open>spaceRunes\<close> lists the UTF-8 encodings of those code
  points: the six ASCII ones, U+0085, U+00A0, U+1680, U+2000 to U+200A, U+2028, U+2029,
  U+202F, U+205F and U+3000. No encoding is a prefix or a suffix of another, and a byte
  sequence that is not valid UTF-8 decodes to the error rune, which is not white space.
\<close>

definition spaceRunes :: "string list" where
  "spaceRunes =
     [[CHR 0x09], [CHR 0x0A], [CHR 0x0B], [CHR 0x0C], [CHR 0x0D], [CHR 0x20],
      [CHR 0xC2, CHR 0x85], [CHR 0xC2, CHR 0xA0],
      [CHR 0xE1, CHR 0x9A, CHR 0x80],
      [CHR 0xE2, CHR 0x80, CHR 0x80], [CHR 0xE2, CHR 0x80, CHR 0x81],
      [CHR 0xE2, CHR 0x80, CHR 0x82], [CHR 0xE2, CHR 0x80, CHR 0x83],
      [CHR 0xE2, CHR 0x80, CHR 0x84], [CHR 0xE2, CHR 0x80, CHR 0x85],
      [CHR 0xE2, CHR 0x80, CHR 0x86], [CHR 0xE2, CHR 0x80, CHR 0x87],
      [CHR 0xE2, CHR 0x80, CHR 0x88], [CHR 0xE2, CHR 0x80, CHR 0x89],
      [CHR 0xE2, CHR 0x80, CHR 0x8A],
      [CHR 0xE2, CHR 0x80, CHR 0xA8], [CHR 0xE2, CHR 0x80, CHR 0xA9],
      [CHR 0xE2, CHR 0x80, CHR 0xAF],
      [CHR 0xE2, CHR 0x81, CHR 0x9F],
      [CHR 0xE3, CHR 0x80, CHR 0x80]]"

definition leadingSpace :: "string \<Rightarrow> string option" where
  "leadingSpace s = find (\<lambda>r. prefix r s) spaceRunes"

definition trailingSpace :: "string \<Rightarrow> string option" where
  "trailingSpace s = find (\<lambda>r. suffix r s) spaceRunes"

function trimLeftSpace :: "string \<Rightarrow> string" where
  "trimLeftSpace s =
     (case leadingSpace s of
        None \<Rightarrow> s
      | Some r \<Rightarrow> trimLeftSpace (drop (length r) s))"
  by pat_completeness auto
termination
  by (relation "measure length")
     (auto simp: leadingSpace_def spaceRunes_def find_Some_iff nth_Cons' prefix_def
           split: if_splits)

function trimRightSpace :: "string \<Rightarrow> string" where
  "trimRightSpace s =
     (case trailingSpace s of
        None \<Rightarrow> s
      | Some r \<Rightarrow> trimRightSpace (take (length s - length r) s))"
  by pat_completeness auto
termination
  by (relation "measure length")
     (auto simp: trailingSpace_def spaceRunes_def find_Some_iff nth_Cons' suffix_def
           split: if_splits)

definition TrimSpace :: "string \<Rightarrow> string" where
  "TrimSpace s = trimRightSpace (trimLeftSpace s)"

section \<open>Remote URLs (package main)\<close>

record RemoteUrl =
  Url :: string
  Domain' :: string
  User :: string
  Repository :: string

text \<open>The zero value of the struct: every field the empty string.\<close>

definition zeroRemoteUrl :: RemoteUrl where
  "zeroRemoteUrl = \<lparr>Url = [], Domain' = [], User = [], Repository = []\<rparr>"

text \<open>
  The first half of \<open>NewRemoteUrl\<close>: the value of its local \<open>otherScheme\<close> after the
  chain of prefix tests, the error of the last branch, or the panic of the index
  expression \<open>[1]\<close>.
\<close>

definition otherScheme :: "string \<Rightarrow> error + string" where
  "otherScheme url =
     (if HasPrefix url ''ssh'' then
        (case index (Split url ''@'') 1 of
           Inl e \<Rightarrow> Inl e
         | Inr rest \<Rightarrow> Inr (TrimSuffix rest ''.git''))
      else if HasPrefix url ''https'' then index (Split url ''//'') 1
      else Inl (Err (''Invalid remote url: '' @ url)))"

definition NewRemoteUrl :: "string \<Rightarrow> error + RemoteUrl" where
  "NewRemoteUrl url =
     (case otherScheme url of
        Inl e \<Rightarrow> Inl e
      | Inr rest \<Rightarrow>
          (let splitUrl = Split rest ''/'' in
           case index splitUrl 0 of
             Inl e \<Rightarrow> Inl e
           | Inr domain \<Rightarrow>
               (case index splitUrl 1 of
                  Inl e \<Rightarrow> Inl e
                | Inr user \<Rightarrow>
                    (case index splitUrl 2 of
                       Inl e \<Rightarrow> Inl e
                     | Inr repository \<Rightarrow>
                         Inr \<lparr>Url = url, Domain' = domain, User = user,
                              Repository = repository\<rparr>))))"

text \<open>
  The program reaches git through \<open>cmdOutput\<close>, which returns what the command printed
  (an error of the command is logged and its output returned all the same). The model
  takes that function as the parameter \<open>cmd\<close>: the command's name and arguments to its
  combined output.
\<close>

type_synonym cmdOutput = "string \<Rightarrow> string list \<Rightarrow> string"

definition gitOutputs :: "cmdOutput \<Rightarrow> string \<Rightarrow> string list \<Rightarrow> string list" where
  "gitOutputs cmd name args =
     filter (\<lambda>line. TrimSpace line \<noteq> []) (Split (cmd name args) [CHR 0x0A])"

definition gitOutput :: "cmdOutput \<Rightarrow> string \<Rightarrow> string list \<Rightarrow> error + string" where
  "gitOutput cmd name args = index (gitOutputs cmd name args) 0"

text \<open>
  The loop of \<open>GitRemotes\<close> over the remote names, with \<open>gitRemotes\<close> the slice built
  so far. An error of \<open>NewRemoteUrl\<close> is replaced by the error of the loop; a panic is
  not an error value and goes through.
\<close>

fun GitRemotes_loop :: "cmdOutput \<Rightarrow> RemoteUrl list \<Rightarrow> string list \<Rightarrow> error + RemoteUrl list" where
  "GitRemotes_loop cmd gitRemotes [] = Inr gitRemotes"
| "GitRemotes_loop cmd gitRemotes (remote # remotes) =
     (case gitOutput cmd ''git'' [''remote'', ''get-url'', remote] of
        Inl e \<Rightarrow> Inl e
      | Inr url \<Rightarrow>
          (case NewRemoteUrl url of
             Inl (Err m) \<Rightarrow> Inl (Err (''Failed serialize remote url. '' @ url))
           | Inl (IndexOutOfRange i n) \<Rightarrow> Inl (IndexOutOfRange i n)
           | Inr gitRemote \<Rightarrow> GitRemotes_loop cmd (gitRemotes @ [gitRemote]) remotes))"

definition GitRemotes :: "cmdOutput \<Rightarrow> error + RemoteUrl list" where
  "GitRemotes cmd =
     (let remotes = gitOutputs cmd ''git'' [''remote''] in
      if length remotes = 0 then Inl (Err ''No remote setting in this repository'')
      else GitRemotes_loop cmd [zeroRemoteUrl] remotes)"

definition FilterGitlabRemote :: "RemoteUrl list \<Rightarrow> error + RemoteUrl" where
  "FilterGitlabRemote gitRemotes =
     (let gitlabRemotes = filter (\<lambda>gitRemote. HasPrefix (Domain' gitRemote) ''gitlab'') gitRemotes in
      if length gitlabRemotes > 0 then Inr (gitlabRemotes ! 0)
      else Inl (Err ''Not a cloned repository from gitlab.''))"

text \<open>
  The discovery as \<open>BrowseCommand.Run\<close> performs it: \<open>GitRemotes\<close>, then
  \<open>FilterGitlabRemote\<close> on its result, the first failure ending the call.
\<close>

definition Run_gitlabRemote :: "cmdOutput \<Rightarrow> error + RemoteUrl" where
  "Run_gitlabRemote cmd =
     (case GitRemotes cmd of
        Inl e \<Rightarrow> Inl e
      | Inr gitRemotes \<Rightarrow> FilterGitlabRemote gitRemotes)"

section \<open>Merge request command (package mr)\<close>

record CreateUpdateMergeRequestOption =
  Edit :: bool
  Title :: string
  Message :: string
  Template :: string
  SourceBranch :: string
  TargetBranch :: string
  StateEvent :: string
  AssigneeID :: int

record ListMergeRequestOption =
  Num :: int
  State :: string
  Scope :: string
  OrderBy :: string
  Sort :: string
  Opened :: bool
  Closed :: bool
  Merged :: bool
  CreatedMe :: bool
  AssignedMe :: bool
  AllProject :: bool

text \<open>
  What the flag parser leaves in the list options when no flag is given: the
  \<open>default:\<close> tag of each field, and the zero value where there is none.
\<close>

definition defaultListMergeRequestOption :: ListMergeRequestOption where
  "defaultListMergeRequestOption =
     \<lparr>Num = 20, State = ''all'', Scope = ''all'', OrderBy = ''updated_at'', Sort = ''desc'',
      Opened = False, Closed = False, Merged = False, CreatedMe = False,
      AssignedMe = False, AllProject = False\<rparr>"

definition GetState :: "ListMergeRequestOption \<Rightarrow> string" where
  "GetState l =
     (if Opened l then ''opened''
      else if Closed l then ''closed''
      else if Merged l then ''merged''
      else State l)"

definition GetScope :: "ListMergeRequestOption \<Rightarrow> string" where
  "GetScope l =
     (if CreatedMe l then ''created-by-me''
      else if AssignedMe l then ''assigned-to-me''
      else Scope l)"

record MergeRequestCommandOption =
  CreateUpdateOption :: CreateUpdateMergeRequestOption
  ListOption :: ListMergeRequestOption

definition hasCreateUpdateOption :: "CreateUpdateMergeRequestOption \<Rightarrow> bool" where
  "hasCreateUpdateOption opt =
     (if Title opt \<noteq> [] \<or> Message opt \<noteq> [] \<or> StateEvent opt \<noteq> [] \<or> AssigneeID opt \<noteq> 0
      then True else False)"

text \<open>
  The create and update options as the flag parser leaves them when no flag is given:
  \<open>TargetBranch\<close> has the tag \<open>default:"master"\<close>, the other fields their zero values.
\<close>

definition defaultCreateUpdateMergeRequestOption :: CreateUpdateMergeRequestOption where
  "defaultCreateUpdateMergeRequestOption =
     \<lparr>Edit = False, Title = [], Message = [], Template = [], SourceBranch = [],
      TargetBranch = ''master'', StateEvent = [], AssigneeID = 0\<rparr>"

subsection \<open>strconv.Atoi\<close>

text \<open>
  \<open>strconv.Atoi\<close> on a platform whose \<open>int\<close> has 64 bits: an optional sign, then
  decimal digits, at least one. Its fast path (fewer than 19 bytes) and \<open>ParseInt\<close>
  behind it return the same results, so the model is the general path:
  \<open>ParseUint_loop\<close> is the digit loop of \<open>ParseUint\<close> in base 10 with its two overflow
  tests, and \<open>Atoi\<close> adds the sign and the bounds of a signed 64-bit integer.
\<close>

datatype NumError = ErrSyntax | ErrRange

definition isDigit :: "char \<Rightarrow> bool" where
  "isDigit c = (48 \<le> (of_char c :: nat) \<and> (of_char c :: nat) \<le> 57)"

definition digitVal :: "char \<Rightarrow> nat" where
  "digitVal c = of_char c - 48"

definition maxUint64 :: nat where
  "maxUint64 = 18446744073709551615"

fun ParseUint_loop :: "nat \<Rightarrow> string \<Rightarrow> NumError + nat" where
  "ParseUint_loop n [] = Inr n"
| "ParseUint_loop n (c # cs) =
     (if \<not> isDigit c then Inl ErrSyntax
      else if n \<ge> maxUint64 div 10 + 1 then Inl ErrRange
      else if n * 10 + digitVal c > maxUint64 then Inl ErrRange
      else ParseUint_loop (n * 10 + digitVal c) cs)"

definition ParseUint :: "string \<Rightarrow> NumError + nat" where
  "ParseUint s = (if s = [] then Inl ErrSyntax else ParseUint_loop 0 s)"

definition Atoi :: "string \<Rightarrow> NumError + int" where
  "Atoi s =
     (if s = [] then Inl ErrSyntax
      else
        (let neg = (hd s = CHR ''-'');
             digits = (if hd s = CHR ''+'' \<or> hd s = CHR ''-'' then tl s else s)
         in case ParseUint digits of
              Inl e \<Rightarrow> Inl e
            | Inr un \<Rightarrow>
                if \<not> neg \<and> un \<ge> 9223372036854775808 then Inl ErrRange
                else if neg \<and> un > 9223372036854775808 then Inl ErrRange
                else Inr (if neg then - int un else int un)))"

definition validMergeRequestIID :: "string list \<Rightarrow> error + int" where
  "validMergeRequestIID args =
     (if length args < 1 then Inr 0
      else
        (case Atoi (args ! 0) of
           Inl e \<Rightarrow> Inl (Err (''Invalid Issue IID. IID: '' @ args ! 0))
         | Inr iid \<Rightarrow> Inr iid))"

subsection \<open>Selecting the method\<close>

text \<open>
  The seven method structs of package \<open>internal\<close>, each with the fields \<open>getMethod\<close>
  gives it. The clients the provider hands out, the edit function of the command and
  the full name of the remote's repository are opaque to the selection: type parameters
  \<open>'c\<close>, \<open>'r\<close>, \<open>'f\<close> and a string.
\<close>

datatype ('c, 'r, 'f) Method =
    updateOnEditorMethod 'c CreateUpdateMergeRequestOption string int 'f
  | updateMethod 'c CreateUpdateMergeRequestOption string int
  | detailMethod 'c string int
  | createOnEditorMethod 'c 'r CreateUpdateMergeRequestOption string 'f
  | createMethod 'c CreateUpdateMergeRequestOption string
  | listAllMethod 'c ListMergeRequestOption
  | listMethod 'c ListMergeRequestOption string

text \<open>
  \<open>getMethod\<close>, with the results of \<open>Provider.GetMergeRequestClient\<close> and
  \<open>Provider.GetRepositoryClient\<close>, the command's \<open>EditFunc\<close> and
  \<open>remote.RepositoryFullName()\<close> as parameters.
\<close>

definition getMethod ::
  "error + 'c \<Rightarrow> error + 'r \<Rightarrow> 'f \<Rightarrow> string \<Rightarrow> MergeRequestCommandOption \<Rightarrow> string list
     \<Rightarrow> error + ('c, 'r, 'f) Method" where
  "getMethod mergeRequestClient getRepositoryClient editFunc project opt args =
     (let createUpdateOption = CreateUpdateOption opt;
          listOption = ListOption opt
      in case mergeRequestClient of
           Inl err \<Rightarrow> Inl err
         | Inr client \<Rightarrow>
             (case getRepositoryClient of
                Inl err \<Rightarrow> Inl err
              | Inr repositoryClient \<Rightarrow>
                  (case validMergeRequestIID args of
                     Inl err \<Rightarrow> Inl err
                   | Inr iid \<Rightarrow>
                       if length args > 0 then
                         (if Edit createUpdateOption
                          then Inr (updateOnEditorMethod client createUpdateOption project iid editFunc)
                          else if hasCreateUpdateOption createUpdateOption
                          then Inr (updateMethod client createUpdateOption project iid)
                          else Inr (detailMethod client project iid))
                       else if Edit createUpdateOption
                       then Inr (createOnEditorMethod client repositoryClient createUpdateOption
                                   project editFunc)
                       else if Title createUpdateOption \<noteq> []
                       then Inr (createMethod client createUpdateOption project)
                       else if AllProject listOption
                       then Inr (listAllMethod client listOption)
                       else Inr (listMethod client listOption project))))"

subsection \<open>Editing title and description\<close>

text \<open>
  \<open>editIssueTitleAndDesc\<close> calls three functions of package \<open>git\<close>, which act on the
  file system: \<open>NewEditor\<close>, \<open>Editor.EditTitleAndDescription\<close> and
  \<open>Editor.DeleteFile\<close>. They are parameters here, a record of functions over a state
  \<open>'w\<close> of the file system; \<open>'e\<close> is the editor value and \<open>'f\<close> the edit function.
  The deferred \<open>DeleteFile\<close> runs when the function returns, so it is the last
  change of the state on the one path that registers it; its own error is dropped. The
  test \<open>editor != nil\<close> holds on that path, \<open>NewEditor\<close> having returned no error.
\<close>

record ('e, 'f, 'w) gitEditor =
  NewEditor :: "string \<Rightarrow> string \<Rightarrow> string \<Rightarrow> 'f \<Rightarrow> 'w \<Rightarrow> (error + 'e) \<times> 'w"
  EditTitleAndDescription :: "'e \<Rightarrow> 'w \<Rightarrow> (error + string \<times> string) \<times> 'w"
  DeleteFile :: "'e \<Rightarrow> 'w \<Rightarrow> 'w"

definition editIssueTitleAndDesc ::
  "('e, 'f, 'w) gitEditor \<Rightarrow> string \<Rightarrow> 'f \<Rightarrow> 'w \<Rightarrow> (error + string \<times> string) \<times> 'w" where
  "editIssueTitleAndDesc git template editFunc w =
     (case NewEditor git ''ISSUE'' ''issue'' template editFunc w of
        (Inl err, w1) \<Rightarrow> (Inl err, w1)
      | (Inr editor, w1) \<Rightarrow>
          (case EditTitleAndDescription git editor w1 of
             (Inl err, w2) \<Rightarrow> (Inl err, w2)
           | (Inr (title, description), w2) \<Rightarrow>
               (Inr (title, description), DeleteFile git editor w2)))"

text \<open>
  Modelled from the spec: package \<open>git\<close>'s editor is not among the sources. The spec
  describes the collaborator as "open template, return (title, body)" over a backing
  temporary template file that the caller is to delete. In \<open>tempFileEditor\<close> the state
  is the set of files that exist; the editor value is the name of its template file
  with the edit function, which stands for what the editing step returns (an error, or
  the title and the description read back); \<open>EditTitleAndDescription\<close> writes the
  file and returns that; \<open>DeleteFile\<close> removes the file.
\<close>

definition tempFileEditor ::
  "(string \<times> (error + string \<times> string), error + string \<times> string, string set) gitEditor" where
  "tempFileEditor =
     \<lparr>NewEditor = (\<lambda>filePrefix topic message editFunc w.
          (Inr (filePrefix @ ''_EDITMSG'', editFunc), w)),
      EditTitleAndDescription = (\<lambda>editor w. (snd editor, insert (fst editor) w)),
      DeleteFile = (\<lambda>editor w. w - {fst editor})\<rparr>"

section \<open>Notions of the specification\<close>

text \<open>
  The specification names the selected operation by a tag; \<open>operationOf\<close> reads the tag
  off the method struct that \<open>getMethod\<close> returns.
\<close>

datatype Operation =
  ListAll | ListForProject | Show | Create | CreateViaEditor | Update | UpdateViaEditor

fun operationOf :: "('c, 'r, 'f) Method \<Rightarrow> Operation" where
  "operationOf (updateOnEditorMethod client opt project iid editFunc) = UpdateViaEditor"
| "operationOf (updateMethod client opt project iid) = Update"
| "operationOf (detailMethod client project iid) = Show"
| "operationOf (createOnEditorMethod client repositoryClient opt project editFunc) = CreateViaEditor"
| "operationOf (createMethod client opt project) = Create"
| "operationOf (listAllMethod client opt) = ListAll"
| "operationOf (listMethod client opt project) = ListForProject"

text \<open>
  What one round of the loop of \<open>GitRemotes\<close> computes for a remote name before it
  appends: the URL that git prints for the name, parsed.
\<close>

definition remoteOf :: "cmdOutput \<Rightarrow> string \<Rightarrow> error + RemoteUrl" where
  "remoteOf cmd remote =
     (case gitOutput cmd ''git'' [''remote'', ''get-url'', remote] of
        Inl e \<Rightarrow> Inl e
      | Inr url \<Rightarrow> NewRemoteUrl url)"

text \<open>
  A git for the examples, over a working copy whose configuration is a list of remote
  names with their URLs: \<open>git remote\<close> prints the names, one on each line, and
  \<open>git remote get-url\<close> the URL of the name and a line break (nothing for a name
  that is not configured).
\<close>

definition gitWith :: "(string \<times> string) list \<Rightarrow> cmdOutput" where
  "gitWith config name args =
     (if args = [''remote''] then concat (map (\<lambda>(remote, url). remote @ [CHR 0x0A]) config)
      else if length args = 3 \<and> take 2 args = [''remote'', ''get-url''] then
        (case map_of config (args ! 2) of
           None \<Rightarrow> []
         | Some url \<Rightarrow> url @ [CHR 0x0A])
      else [])"

definition exampleConfig :: "(string \<times> string) list" where
  "exampleConfig =
     [(''origin'', ''https://github.com/owner/project''),
      (''gitlab'', ''ssh://git@gitlab.com/owner/project.git''),
      (''mirror'', ''https://gitlab.example.com/team/project'')]"

definition exampleRemotes :: "RemoteUrl list" where
  "exampleRemotes =
     [\<lparr>Url = ''https://github.com/owner/project'', Domain' = ''github.com'',
       User = ''owner'', Repository = ''project''\<rparr>,
      \<lparr>Url = ''ssh://git@gitlab.com/owner/project.git'', Domain' = ''gitlab.com'',
       User = ''owner'', Repository = ''project''\<rparr>,
      \<lparr>Url = ''https://gitlab.example.com/team/project'', Domain' = ''gitlab.example.com'',
       User = ''team'', Repository = ''project''\<rparr>]"

text \<open>
  The specification's integer literal, for the first positional argument: an optional
  sign and then decimal digits, at least one, with a value that a signed 64-bit integer
  holds; \<open>intLiteral\<close> gives that value.
\<close>

definition decimal :: "string \<Rightarrow> nat" where
  "decimal ds = foldl (\<lambda>n c. n * 10 + digitVal c) 0 ds"

definition intLiteral :: "string \<Rightarrow> int option" where
  "intLiteral s =
     (let neg = prefix ''-'' s;
          ds = (if prefix ''+'' s \<or> prefix ''-'' s then tl s else s)
      in if ds \<noteq> [] \<and> list_all isDigit ds \<and>
            (if neg then decimal ds \<le> 9223372036854775808 else decimal ds < 9223372036854775808)
         then Some (if neg then - int (decimal ds) else int (decimal ds))
         else None)"

section \<open>Splitting at a separator\<close>

lemma splitFrom_char_free: "c \<notin> set s \<Longrightarrow> splitFrom [c] cur s = [cur @ s]"
  by (induction s arbitrary: cur) auto

lemma splitFrom_char_cut:
  "c \<notin> set a \<Longrightarrow> splitFrom [c] cur (a @ c # b) = (cur @ a) # splitFrom [c] [] b"
  by (induction a arbitrary: cur) auto

lemma splitFrom_char_elems:
  "c \<notin> set cur \<Longrightarrow> x \<in> set (splitFrom [c] cur s) \<Longrightarrow> c \<notin> set x"
proof (induction s arbitrary: cur)
  case Nil
  then show ?case by simp
next
  case (Cons a s)
  show ?case
  proof (cases "a = c")
    case True
    with Cons.prems have "x = cur \<or> x \<in> set (splitFrom [c] [] s)" by simp
    then show ?thesis using Cons.prems(1) Cons.IH [of "[]"] by auto
  next
    case False
    with Cons.prems have "x \<in> set (splitFrom [c] (cur @ [a]) s)" by simp
    then show ?thesis using Cons.prems(1) False Cons.IH [of "cur @ [a]"] by auto
  qed
qed







section \<open>Parsing a remote URL\<close>



text \<open>
  C1. A URL whose remainder has fewer than three segments does not make the parser
  return an error: \<open>https://gitlab.com/owner\<close> leaves two segments, and the index
  expression \<open>splitUrl[2]\<close> panics with "index out of range [2] with length 2".
\<close>

theorem NewRemoteUrl_two_segments_panics:
  "NewRemoteUrl ''https://gitlab.com/owner'' = Inl (IndexOutOfRange 2 2)"
  by (simp add: NewRemoteUrl_def otherScheme_def HasPrefix_def Split_def index_def)

lemma NewRemoteUrl_empty_project:
  "NewRemoteUrl ''https://gitlab.com/owner/'' =
     Inr \<lparr>Url = ''https://gitlab.com/owner/'', Domain' = ''gitlab.com'', User = ''owner'',
          Repository = []\<rparr>"
  by (simp add: NewRemoteUrl_def otherScheme_def HasPrefix_def Split_def index_def)

text \<open>
  C4, as the claim states it, fails: \<open>https://gitlab.com/owner/\<close> parses, and the
  project of the result is the empty string.
\<close>

theorem NewRemoteUrl_empty_field_counterexample:
  "NewRemoteUrl ''https://gitlab.com/owner/'' =
     Inr \<lparr>Url = ''https://gitlab.com/owner/'', Domain' = ''gitlab.com'', User = ''owner'',
          Repository = []\<rparr>"
  by (rule NewRemoteUrl_empty_project)

text \<open>
  C4, amended. When the parser succeeds, the remainder after the scheme has at least
  three segments, the result holds the URL as given, and its host, owner and project
  are the first three segments: each is free of \<open>/\<close>, and each is empty when its
  segment is. The result of a parse is one such identity or a failure, never both.
\<close>

theorem NewRemoteUrl_success_fields:
  assumes "NewRemoteUrl url = Inr r"
  shows "\<exists>rest. otherScheme url = Inr rest \<and> 3 \<le> length (Split rest ''/'') \<and>
           Url r = url \<and> Domain' r = Split rest ''/'' ! 0 \<and> User r = Split rest ''/'' ! 1 \<and>
           Repository r = Split rest ''/'' ! 2 \<and>
           CHR ''/'' \<notin> set (Domain' r) \<and> CHR ''/'' \<notin> set (User r) \<and>
           CHR ''/'' \<notin> set (Repository r)"
proof -
  from assms obtain rest where rest: "otherScheme url = Inr rest"
    by (auto simp: NewRemoteUrl_def split: sum.splits)
  let ?xs = "Split rest ''/''"
  from assms rest have len: "3 \<le> length ?xs"
    and r: "r = \<lparr>Url = url, Domain' = ?xs ! 0, User = ?xs ! 1, Repository = ?xs ! 2\<rparr>"
    by (auto simp: NewRemoteUrl_def index_def Let_def split: sum.splits if_splits)
  have free: "\<And>i. i < length ?xs \<Longrightarrow> CHR ''/'' \<notin> set (?xs ! i)"
  proof -
    fix i assume "i < length ?xs"
    then have "?xs ! i \<in> set (splitFrom ''/'' [] rest)"
      using nth_mem [of i ?xs] by (simp add: Split_def)
    then show "CHR ''/'' \<notin> set (?xs ! i)"
      using splitFrom_char_elems [of "CHR ''/''" "[]" "?xs ! i" rest] by simp
  qed
  from len have "0 < length ?xs" "1 < length ?xs" "2 < length ?xs"
    by auto
  note free [OF this(1)] free [OF this(2)] free [OF this(3)]
  with rest len r show ?thesis by simp
qed

theorem NewRemoteUrl_success_fields_witness:
  "\<exists>rest. otherScheme ''https://gitlab.com/owner/'' = Inr rest \<and>
     3 \<le> length (Split rest ''/'') \<and>
     ''gitlab.com'' = Split rest ''/'' ! 0 \<and> ''owner'' = Split rest ''/'' ! 1 \<and>
     [] = Split rest ''/'' ! 2"
  using NewRemoteUrl_success_fields [OF NewRemoteUrl_empty_project] by simp

section \<open>Discovery of the remote\<close>

lemma GitRemotes_loop_Inr:
  "GitRemotes_loop cmd acc remotes = Inr rs \<longleftrightarrow>
     (\<exists>ids. rs = acc @ ids \<and> map (remoteOf cmd) remotes = map Inr ids)"
proof (induction remotes arbitrary: acc)
  case Nil
  then show ?case by auto
next
  case (Cons remote remotes)
  show ?case
  proof (cases "remoteOf cmd remote")
    case (Inl e)
    then have "\<exists>e'. GitRemotes_loop cmd acc (remote # remotes) = Inl e'"
      by (auto simp: remoteOf_def split: sum.splits error.splits)
    with Inl show ?thesis by auto
  next
    case (Inr r)
    then have "GitRemotes_loop cmd acc (remote # remotes) =
        GitRemotes_loop cmd (acc @ [r]) remotes"
      by (auto simp: remoteOf_def split: sum.splits)
    then show ?thesis
      using Inr Cons.IH [of "acc @ [r]"] by (auto simp: map_eq_Cons_conv Cons_eq_map_conv)
  qed
qed

lemma GitRemotes_loop_fails:
  assumes "remote \<in> set remotes" and "remoteOf cmd remote = Inl e"
  shows "\<exists>e'. GitRemotes_loop cmd acc remotes = Inl e'"
proof (cases "GitRemotes_loop cmd acc remotes")
  case (Inl e')
  then show ?thesis by blast
next
  case (Inr rs)
  then obtain ids where "map (remoteOf cmd) remotes = map Inr ids"
    using GitRemotes_loop_Inr by blast
  then have "remoteOf cmd remote \<in> set (map Inr ids)"
    using assms(1) by (metis image_eqI set_map)
  with assms(2) show ?thesis by auto
qed

lemma find_filter: "find P xs = (case filter P xs of [] \<Rightarrow> None | x # _ \<Rightarrow> Some x)"
  by (induction xs) auto

lemma FilterGitlabRemote_find:
  "FilterGitlabRemote rs =
     (case find (\<lambda>r. HasPrefix (Domain' r) ''gitlab'') rs of
        Some r \<Rightarrow> Inr r
      | None \<Rightarrow> Inl (Err ''Not a cloned repository from gitlab.''))"
  by (simp add: FilterGitlabRemote_def Let_def find_filter split: list.splits)

lemma zero_not_gitlab: "\<not> HasPrefix (Domain' zeroRemoteUrl) ''gitlab''"
  by (simp add: zeroRemoteUrl_def HasPrefix_def)

lemma GitRemotes_Inr:
  assumes "gitOutputs cmd ''git'' [''remote''] \<noteq> []"
    and "map (remoteOf cmd) (gitOutputs cmd ''git'' [''remote'']) = map Inr ids"
  shows "GitRemotes cmd = Inr (zeroRemoteUrl # ids)"
  using assms
    GitRemotes_loop_Inr [of cmd "[zeroRemoteUrl]" "gitOutputs cmd ''git'' [''remote'']"
      "[zeroRemoteUrl] @ ids"]
  by (simp add: GitRemotes_def)

lemma gitOutput_first_line:
  assumes "CHR 0x0A \<notin> set u" and "TrimSpace u \<noteq> []"
    and "cmd name args = u \<or> cmd name args = u @ CHR 0x0A # w"
  shows "gitOutput cmd name args = Inr u"
proof -
  from assms(3) have "\<exists>ls. Split (cmd name args) [CHR 0x0A] = u # ls"
  proof
    assume "cmd name args = u"
    then show ?thesis
      using assms(1) splitFrom_char_free [of "CHR 0x0A" u "[]"] by (simp add: Split_def)
  next
    assume "cmd name args = u @ CHR 0x0A # w"
    then show ?thesis
      using assms(1) splitFrom_char_cut [of "CHR 0x0A" u "[]" w] by (simp add: Split_def)
  qed
  then show ?thesis
    using assms(2) by (auto simp: gitOutput_def gitOutputs_def index_def)
qed

lemma exampleConfig_names:
  "gitOutputs (gitWith exampleConfig) ''git'' [''remote''] = [''origin'', ''gitlab'', ''mirror'']"
  by code_simp

lemma exampleConfig_parsed:
  "map (remoteOf (gitWith exampleConfig)) [''origin'', ''gitlab'', ''mirror''] =
     map Inr exampleRemotes"
  by code_simp

text \<open>
  C6. Discovery is \<open>GitRemotes\<close> followed by \<open>FilterGitlabRemote\<close>. With no remote
  name it fails with "No remote setting in this repository". When the URL of one of the
  remotes does not parse, the whole call fails. When every remote parses and no host
  starts with \<open>gitlab\<close>, it fails with "Not a cloned repository from gitlab.". When
  every remote parses and some host starts with \<open>gitlab\<close>, it returns the first such
  identity in the order in which git lists the remotes.
\<close>

theorem Run_gitlabRemote_discovery:
  "(gitOutputs cmd ''git'' [''remote''] = [] \<longrightarrow>
      Run_gitlabRemote cmd = Inl (Err ''No remote setting in this repository'')) \<and>
   (remote \<in> set (gitOutputs cmd ''git'' [''remote'']) \<and> remoteOf cmd remote = Inl e \<longrightarrow>
      (\<exists>e'. Run_gitlabRemote cmd = Inl e')) \<and>
   (gitOutputs cmd ''git'' [''remote''] \<noteq> [] \<and>
    map (remoteOf cmd) (gitOutputs cmd ''git'' [''remote'']) = map Inr ids \<and>
    find (\<lambda>r. HasPrefix (Domain' r) ''gitlab'') ids = None \<longrightarrow>
      Run_gitlabRemote cmd = Inl (Err ''Not a cloned repository from gitlab.'')) \<and>
   (gitOutputs cmd ''git'' [''remote''] \<noteq> [] \<and>
    map (remoteOf cmd) (gitOutputs cmd ''git'' [''remote'']) = map Inr ids \<and>
    find (\<lambda>r. HasPrefix (Domain' r) ''gitlab'') ids = Some r \<longrightarrow>
      Run_gitlabRemote cmd = Inr r)"
proof (intro conjI impI)
  assume "gitOutputs cmd ''git'' [''remote''] = []"
  then show "Run_gitlabRemote cmd = Inl (Err ''No remote setting in this repository'')"
    by (simp add: Run_gitlabRemote_def GitRemotes_def)
next
  assume a: "remote \<in> set (gitOutputs cmd ''git'' [''remote'']) \<and> remoteOf cmd remote = Inl e"
  then have "gitOutputs cmd ''git'' [''remote''] \<noteq> []" by auto
  moreover from a obtain e' where
    "GitRemotes_loop cmd [zeroRemoteUrl] (gitOutputs cmd ''git'' [''remote'']) = Inl e'"
    using GitRemotes_loop_fails by blast
  ultimately show "\<exists>e'. Run_gitlabRemote cmd = Inl e'"
    by (simp add: Run_gitlabRemote_def GitRemotes_def)
next
  assume a: "gitOutputs cmd ''git'' [''remote''] \<noteq> [] \<and>
    map (remoteOf cmd) (gitOutputs cmd ''git'' [''remote'']) = map Inr ids \<and>
    find (\<lambda>r. HasPrefix (Domain' r) ''gitlab'') ids = None"
  then have "GitRemotes cmd = Inr (zeroRemoteUrl # ids)"
    by (simp add: GitRemotes_Inr)
  with a show "Run_gitlabRemote cmd = Inl (Err ''Not a cloned repository from gitlab.'')"
    by (simp add: Run_gitlabRemote_def FilterGitlabRemote_find zero_not_gitlab)
next
  assume a: "gitOutputs cmd ''git'' [''remote''] \<noteq> [] \<and>
    map (remoteOf cmd) (gitOutputs cmd ''git'' [''remote'']) = map Inr ids \<and>
    find (\<lambda>r. HasPrefix (Domain' r) ''gitlab'') ids = Some r"
  then have "GitRemotes cmd = Inr (zeroRemoteUrl # ids)"
    by (simp add: GitRemotes_Inr)
  with a show "Run_gitlabRemote cmd = Inr r"
    by (simp add: Run_gitlabRemote_def FilterGitlabRemote_find zero_not_gitlab)
qed

theorem Run_gitlabRemote_discovery_witness:
  "Run_gitlabRemote (gitWith []) = Inl (Err ''No remote setting in this repository'') \<and>
   (\<exists>e'. Run_gitlabRemote (gitWith [(''origin'', ''git@gitlab.com:owner/project.git'')]) =
      Inl e') \<and>
   Run_gitlabRemote (gitWith [(''origin'', ''https://github.com/owner/project'')]) =
     Inl (Err ''Not a cloned repository from gitlab.'') \<and>
   Run_gitlabRemote (gitWith exampleConfig) =
     Inr \<lparr>Url = ''ssh://git@gitlab.com/owner/project.git'', Domain' = ''gitlab.com'',
          User = ''owner'', Repository = ''project''\<rparr>"
proof -
  note d = Run_gitlabRemote_discovery
  have none: "gitOutputs (gitWith []) ''git'' [''remote''] = []"
    by code_simp
  have 1: "Run_gitlabRemote (gitWith []) = Inl (Err ''No remote setting in this repository'')"
    using d [where cmd = "gitWith []"] none by blast
  let ?scp = "gitWith [(''origin'', ''git@gitlab.com:owner/project.git'')]"
  have "gitOutputs ?scp ''git'' [''remote''] = [''origin'']"
    by code_simp
  moreover have "remoteOf ?scp ''origin'' =
      Inl (Err ''Invalid remote url: git@gitlab.com:owner/project.git'')"
    by code_simp
  ultimately have 2: "\<exists>e'. Run_gitlabRemote ?scp = Inl e'"
    using d [where cmd = ?scp and remote = "''origin''"
        and e = "Err ''Invalid remote url: git@gitlab.com:owner/project.git''"]
    by simp
  let ?hub = "gitWith [(''origin'', ''https://github.com/owner/project'')]"
  let ?r = "\<lparr>Url = ''https://github.com/owner/project'', Domain' = ''github.com'',
             User = ''owner'', Repository = ''project''\<rparr>"
  have "gitOutputs ?hub ''git'' [''remote''] = [''origin'']"
    by code_simp
  moreover have "map (remoteOf ?hub) [''origin''] = map Inr [?r]"
    by code_simp
  moreover have "find (\<lambda>r. HasPrefix (Domain' r) ''gitlab'') [?r] = None"
    by (simp add: HasPrefix_def)
  ultimately have 3: "Run_gitlabRemote ?hub = Inl (Err ''Not a cloned repository from gitlab.'')"
    using d [where cmd = ?hub and ids = "[?r]"] by simp
  have "find (\<lambda>r. HasPrefix (Domain' r) ''gitlab'') exampleRemotes =
      Some \<lparr>Url = ''ssh://git@gitlab.com/owner/project.git'', Domain' = ''gitlab.com'',
            User = ''owner'', Repository = ''project''\<rparr>"
    by (simp add: exampleRemotes_def HasPrefix_def)
  then have 4: "Run_gitlabRemote (gitWith exampleConfig) =
      Inr \<lparr>Url = ''ssh://git@gitlab.com/owner/project.git'', Domain' = ''gitlab.com'',
           User = ''owner'', Repository = ''project''\<rparr>"
    using d [where cmd = "gitWith exampleConfig" and ids = exampleRemotes]
      exampleConfig_names exampleConfig_parsed
    by simp
  from 1 2 3 4 show ?thesis by blast
qed



text \<open>
  C9, as the claim states it, fails: when the URL that git prints for the remote ends
  in a space, the space is kept, and the project of the identity is \<open>project\<close> with
  the space behind it, not the project of the trimmed URL.
\<close>

theorem GitRemotes_trailing_space_counterexample:
  "GitRemotes (gitWith [(''origin'', ''https://gitlab.com/owner/project '')]) =
     Inr [zeroRemoteUrl,
          \<lparr>Url = ''https://gitlab.com/owner/project '', Domain' = ''gitlab.com'',
           User = ''owner'', Repository = ''project ''\<rparr>] \<and>
   NewRemoteUrl ''https://gitlab.com/owner/project'' =
     Inr \<lparr>Url = ''https://gitlab.com/owner/project'', Domain' = ''gitlab.com'',
          User = ''owner'', Repository = ''project''\<rparr>"
  by code_simp

text \<open>
  C9, amended. Discovery takes the first line of what git prints for the remote as it
  stands: when the output is a line that is not blank, alone or followed by a line
  break and anything else, the identity of the remote is the identity of that line.
  So a trailing line break, and white space after it, is dropped; white space before the
  first line break is part of the URL.
\<close>

theorem remoteOf_first_line:
  assumes "CHR 0x0A \<notin> set u" and "TrimSpace u \<noteq> []"
    and "cmd ''git'' [''remote'', ''get-url'', remote] = u \<or>
         cmd ''git'' [''remote'', ''get-url'', remote] = u @ CHR 0x0A # w"
  shows "remoteOf cmd remote = NewRemoteUrl u"
  using gitOutput_first_line [of u cmd "''git''" "[''remote'', ''get-url'', remote]" w, OF assms]
  by (simp add: remoteOf_def)

theorem remoteOf_first_line_witness:
  "remoteOf (gitWith [(''origin'', ''https://gitlab.com/owner/project'')]) ''origin'' =
     NewRemoteUrl ''https://gitlab.com/owner/project''"
proof -
  let ?u = "''https://gitlab.com/owner/project''"
  have 1: "CHR 0x0A \<notin> set ?u" by simp
  have 2: "TrimSpace ?u \<noteq> []" by code_simp
  have 3: "gitWith [(''origin'', ?u)] ''git'' [''remote'', ''get-url'', ''origin''] = ?u \<or>
      gitWith [(''origin'', ?u)] ''git'' [''remote'', ''get-url'', ''origin''] = ?u @ CHR 0x0A # []"
    by (simp add: gitWith_def)
  show ?thesis
    by (rule remoteOf_first_line
        [where u = ?u and cmd = "gitWith [(''origin'', ?u)]" and remote = "''origin''"
           and w = "[]", OF 1 2 3])
qed

section \<open>The merge request command\<close>

text \<open>
  C7. The effective state is \<open>opened\<close> when the opened flag is set, else \<open>closed\<close> when
  the closed flag is set, else \<open>merged\<close> when the merged flag is set, else the state
  string, which is \<open>all\<close> when no flag was given; the effective scope is
  \<open>created-by-me\<close> when the created-by-me flag is set, else \<open>assigned-to-me\<close> when the
  assigned-to-me flag is set, else the scope string, \<open>all\<close> by default. The opened flag
  with the state string \<open>closed\<close> gives \<open>opened\<close>.
\<close>

theorem GetState_GetScope_precedence:
  "(Opened l \<longrightarrow> GetState l = ''opened'') \<and>
   (\<not> Opened l \<and> Closed l \<longrightarrow> GetState l = ''closed'') \<and>
   (\<not> Opened l \<and> \<not> Closed l \<and> Merged l \<longrightarrow> GetState l = ''merged'') \<and>
   (\<not> Opened l \<and> \<not> Closed l \<and> \<not> Merged l \<longrightarrow> GetState l = State l) \<and>
   (CreatedMe l \<longrightarrow> GetScope l = ''created-by-me'') \<and>
   (\<not> CreatedMe l \<and> AssignedMe l \<longrightarrow> GetScope l = ''assigned-to-me'') \<and>
   (\<not> CreatedMe l \<and> \<not> AssignedMe l \<longrightarrow> GetScope l = Scope l) \<and>
   GetState defaultListMergeRequestOption = ''all'' \<and>
   GetScope defaultListMergeRequestOption = ''all'' \<and>
   GetState (l\<lparr>Opened := True, State := ''closed''\<rparr>) = ''opened''"
  by (simp add: GetState_def GetScope_def defaultListMergeRequestOption_def)

theorem GetState_GetScope_precedence_witness:
  "GetState (defaultListMergeRequestOption\<lparr>Opened := True, Closed := True\<rparr>) = ''opened'' \<and>
   GetState (defaultListMergeRequestOption\<lparr>Closed := True, Merged := True\<rparr>) = ''closed'' \<and>
   GetState (defaultListMergeRequestOption\<lparr>Merged := True, State := ''opened''\<rparr>) = ''merged'' \<and>
   GetState (defaultListMergeRequestOption\<lparr>State := ''closed''\<rparr>) = ''closed'' \<and>
   GetScope (defaultListMergeRequestOption\<lparr>CreatedMe := True, AssignedMe := True\<rparr>) =
     ''created-by-me'' \<and>
   GetScope (defaultListMergeRequestOption\<lparr>AssignedMe := True\<rparr>) = ''assigned-to-me'' \<and>
   GetScope (defaultListMergeRequestOption\<lparr>Scope := ''created-by-me''\<rparr>) = ''created-by-me''"
proof -
  note p = GetState_GetScope_precedence
  have "GetState (defaultListMergeRequestOption\<lparr>Opened := True, Closed := True\<rparr>) = ''opened''"
    using p [of "defaultListMergeRequestOption\<lparr>Opened := True, Closed := True\<rparr>"] by simp
  moreover
  have "GetState (defaultListMergeRequestOption\<lparr>Closed := True, Merged := True\<rparr>) = ''closed''"
    using p [of "defaultListMergeRequestOption\<lparr>Closed := True, Merged := True\<rparr>"]
    by (simp add: defaultListMergeRequestOption_def)
  moreover
  have "GetState (defaultListMergeRequestOption\<lparr>Merged := True, State := ''opened''\<rparr>) = ''merged''"
    using p [of "defaultListMergeRequestOption\<lparr>Merged := True, State := ''opened''\<rparr>"]
    by (simp add: defaultListMergeRequestOption_def)
  moreover
  have "GetState (defaultListMergeRequestOption\<lparr>State := ''closed''\<rparr>) = ''closed''"
    using p [of "defaultListMergeRequestOption\<lparr>State := ''closed''\<rparr>"]
    by (simp add: defaultListMergeRequestOption_def)
  moreover
  have "GetScope (defaultListMergeRequestOption\<lparr>CreatedMe := True, AssignedMe := True\<rparr>) =
          ''created-by-me''"
    using p [of "defaultListMergeRequestOption\<lparr>CreatedMe := True, AssignedMe := True\<rparr>"]
    by simp
  moreover
  have "GetScope (defaultListMergeRequestOption\<lparr>AssignedMe := True\<rparr>) = ''assigned-to-me''"
    using p [of "defaultListMergeRequestOption\<lparr>AssignedMe := True\<rparr>"]
    by (simp add: defaultListMergeRequestOption_def)
  moreover
  have "GetScope (defaultListMergeRequestOption\<lparr>Scope := ''created-by-me''\<rparr>) = ''created-by-me''"
    using p [of "defaultListMergeRequestOption\<lparr>Scope := ''created-by-me''\<rparr>"]
    by (simp add: defaultListMergeRequestOption_def)
  ultimately show ?thesis by blast
qed

text \<open>
  C3. When the provider hands out both clients and the identifier resolves,
  \<open>getMethod\<close> returns a method, selected in this order. With an identifier (a
  positional argument): the edit flag gives update-via-editor, else a title, message,
  state event or assignee id that is not the default gives update, else show. With
  none: the edit flag gives create-via-editor, else a title gives create, else the
  all-project flag gives list-all, else list-for-project.
\<close>

theorem getMethod_precedence:
  assumes "mergeRequestClient = Inr client" and "getRepositoryClient = Inr repositoryClient"
    and "validMergeRequestIID args = Inr iid"
  shows "\<exists>m. getMethod mergeRequestClient getRepositoryClient editFunc project opt args = Inr m \<and>
           operationOf m =
             (if args \<noteq> [] then
                (if Edit (CreateUpdateOption opt) then UpdateViaEditor
                 else if Title (CreateUpdateOption opt) \<noteq> [] \<or>
                         Message (CreateUpdateOption opt) \<noteq> [] \<or>
                         StateEvent (CreateUpdateOption opt) \<noteq> [] \<or>
                         AssigneeID (CreateUpdateOption opt) \<noteq> 0
                 then Update
                 else Show)
              else
                (if Edit (CreateUpdateOption opt) then CreateViaEditor
                 else if Title (CreateUpdateOption opt) \<noteq> [] then Create
                 else if AllProject (ListOption opt) then ListAll
                 else ListForProject))"
  using assms by (simp add: getMethod_def hasCreateUpdateOption_def Let_def)

theorem getMethod_precedence_witness:
  "\<exists>m. getMethod (Inr () :: error + unit) (Inr () :: error + unit) () ''owner/project''
          \<lparr>CreateUpdateOption = defaultCreateUpdateMergeRequestOption\<lparr>Edit := True, Title := ''x''\<rparr>,
           ListOption = defaultListMergeRequestOption\<rparr> [''7''] = Inr m \<and>
        operationOf m = UpdateViaEditor"
proof -
  have iid: "validMergeRequestIID [''7''] = Inr 7"
    by (simp add: validMergeRequestIID_def Atoi_def ParseUint_def isDigit_def digitVal_def
        maxUint64_def)
  show ?thesis
    using getMethod_precedence [OF refl refl iid, of "()" "()" "()" "''owner/project''"
        "\<lparr>CreateUpdateOption = defaultCreateUpdateMergeRequestOption\<lparr>Edit := True, Title := ''x''\<rparr>,
          ListOption = defaultListMergeRequestOption\<rparr>"]
    by (simp add: defaultCreateUpdateMergeRequestOption_def)
qed

lemma foldl_decimal_ge: "n \<le> foldl (\<lambda>n c. n * 10 + digitVal c) n ds"
proof (induction ds arbitrary: n)
  case Nil
  then show ?case by simp
next
  case (Cons c ds)
  have "n \<le> n * 10 + digitVal c" by simp
  also have "\<dots> \<le> foldl (\<lambda>n c. n * 10 + digitVal c) (n * 10 + digitVal c) ds"
    by (rule Cons.IH)
  finally show ?case by simp
qed

lemma ParseUint_loop_Inr:
  "ParseUint_loop n ds = Inr m \<longleftrightarrow>
     list_all isDigit ds \<and> m = foldl (\<lambda>n c. n * 10 + digitVal c) n ds \<and>
     (ds = [] \<or> m \<le> maxUint64)"
proof (induction ds arbitrary: n)
  case Nil
  then show ?case by auto
next
  case (Cons c ds)
  let ?n' = "n * 10 + digitVal c"
  have ge: "?n' \<le> foldl (\<lambda>n c. n * 10 + digitVal c) ?n' ds"
    by (rule foldl_decimal_ge)
  have cut: "n \<ge> maxUint64 div 10 + 1 \<Longrightarrow> ?n' > maxUint64"
    by (simp add: maxUint64_def)
  show ?case
  proof (cases "isDigit c \<and> ?n' \<le> maxUint64")
    case True
    then have "\<not> n \<ge> maxUint64 div 10 + 1" using cut by auto
    with True have "ParseUint_loop n (c # ds) = ParseUint_loop ?n' ds" by simp
    then show ?thesis using True ge Cons.IH [of ?n'] by (cases ds) auto
  next
    case False
    then have "\<exists>e. ParseUint_loop n (c # ds) = Inl e" by auto
    moreover have "\<not> (list_all isDigit (c # ds) \<and>
        foldl (\<lambda>n c. n * 10 + digitVal c) n (c # ds) \<le> maxUint64)"
      using False ge by auto
    ultimately show ?thesis by auto
  qed
qed

lemma ParseUint_Inr:
  "ParseUint ds = Inr un \<longleftrightarrow>
     ds \<noteq> [] \<and> list_all isDigit ds \<and> un = decimal ds \<and> decimal ds \<le> maxUint64"
  unfolding ParseUint_def decimal_def using ParseUint_loop_Inr [of 0 ds un] by auto

lemma Atoi_intLiteral: "Atoi s = Inr v \<longleftrightarrow> intLiteral s = Some v"
proof (cases s)
  case Nil
  then show ?thesis by (simp add: Atoi_def intLiteral_def)
next
  case (Cons c cs)
  define neg where "neg = (c = CHR ''-'')"
  define ds where "ds = (if c = CHR ''+'' \<or> c = CHR ''-'' then cs else s)"
  define b :: nat where "b = 9223372036854775808"
  have b: "b < maxUint64" by (simp add: b_def maxUint64_def)
  have A: "Atoi s =
      (case ParseUint ds of
         Inl e \<Rightarrow> Inl e
       | Inr un \<Rightarrow>
           if \<not> neg \<and> un \<ge> b then Inl ErrRange
           else if neg \<and> un > b then Inl ErrRange
           else Inr (if neg then - int un else int un))"
    unfolding Atoi_def neg_def ds_def b_def Let_def Cons list.sel by simp
  have L: "intLiteral s =
      (if ds \<noteq> [] \<and> list_all isDigit ds \<and> (if neg then decimal ds \<le> b else decimal ds < b)
       then Some (if neg then - int (decimal ds) else int (decimal ds)) else None)"
    unfolding intLiteral_def neg_def ds_def b_def Let_def Cons list.sel by simp
  show ?thesis
  proof (cases "ParseUint ds")
    case (Inl e)
    then have "\<not> (ds \<noteq> [] \<and> list_all isDigit ds \<and> decimal ds \<le> maxUint64)"
      using ParseUint_Inr [of ds "decimal ds"] by simp
    then have "\<not> (ds \<noteq> [] \<and> list_all isDigit ds \<and>
        (if neg then decimal ds \<le> b else decimal ds < b))"
      using b by (cases neg) auto
    then have "intLiteral s = None" unfolding L by simp
    moreover have "Atoi s = Inl e" unfolding A using Inl by simp
    ultimately show ?thesis by simp
  next
    case (Inr un)
    then have p: "ds \<noteq> []" "list_all isDigit ds" "un = decimal ds"
      using ParseUint_Inr [of ds un] by simp_all
    show ?thesis
    proof (cases neg)
      case True
      then show ?thesis unfolding A L using Inr p by (cases "un > b") auto
    next
      case False
      then show ?thesis unfolding A L using Inr p by (cases "un \<ge> b") auto
    qed
  qed
qed

text \<open>
  C5, as the claim states it, fails: the negative literal \<open>-5\<close> is not refused, it is
  the identifier \<open>-5\<close>.
\<close>

theorem validMergeRequestIID_negative_counterexample:
  "validMergeRequestIID [''-5''] = Inr (- 5)"
  by (simp add: validMergeRequestIID_def Atoi_def ParseUint_def isDigit_def digitVal_def
      maxUint64_def)

text \<open>
  C5, amended. Only the first positional argument is read. Without arguments the
  result is the identifier 0 and no error (the caller takes the identifier as absent).
  A first argument that is an integer literal, with or without sign, gives its value,
  negative values too; any other first argument fails with "Invalid Issue IID. IID: "
  followed by the argument. So \<open>abc\<close> fails, \<open>42\<close> gives 42 and \<open>-5\<close> gives -5.
\<close>

theorem validMergeRequestIID_first_argument:
  "validMergeRequestIID [] = Inr 0 \<and>
   validMergeRequestIID (a # rest) =
     (case intLiteral a of
        Some n \<Rightarrow> Inr n
      | None \<Rightarrow> Inl (Err (''Invalid Issue IID. IID: '' @ a))) \<and>
   intLiteral ''abc'' = None \<and> intLiteral ''42'' = Some 42 \<and> intLiteral ''-5'' = Some (- 5)"
proof (intro conjI)
  show "validMergeRequestIID [] = Inr 0"
    by (simp add: validMergeRequestIID_def)
  show "validMergeRequestIID (a # rest) =
     (case intLiteral a of
        Some n \<Rightarrow> Inr n
      | None \<Rightarrow> Inl (Err (''Invalid Issue IID. IID: '' @ a)))"
  proof (cases "Atoi a")
    case (Inl e)
    then have "intLiteral a = None"
      using Atoi_intLiteral [of a] by (cases "intLiteral a") auto
    with Inl show ?thesis by (simp add: validMergeRequestIID_def)
  next
    case (Inr v)
    then have "intLiteral a = Some v"
      using Atoi_intLiteral [of a v] by simp
    with Inr show ?thesis by (simp add: validMergeRequestIID_def)
  qed
  show "intLiteral ''abc'' = None"
    by (simp add: intLiteral_def isDigit_def)
  show "intLiteral ''42'' = Some 42"
    by (simp add: intLiteral_def isDigit_def decimal_def digitVal_def)
  show "intLiteral ''-5'' = Some (- 5)"
    by (simp add: intLiteral_def isDigit_def decimal_def digitVal_def)
qed

theorem validMergeRequestIID_first_argument_witness:
  "validMergeRequestIID [''42'', ''43''] = Inr 42 \<and>
   validMergeRequestIID [''abc''] = Inl (Err ''Invalid Issue IID. IID: abc'') \<and>
   validMergeRequestIID [''+7'', ''abc''] = Inr 7"
proof -
  have "intLiteral ''+7'' = Some 7"
    by (simp add: intLiteral_def isDigit_def decimal_def digitVal_def)
  then show ?thesis
    using validMergeRequestIID_first_argument [of "''42''" "[''43'']"]
      validMergeRequestIID_first_argument [of "''abc''" "[]"]
      validMergeRequestIID_first_argument [of "''+7''" "[''abc'']"]
    by simp
qed

text \<open>
  C2. When \<open>EditTitleAndDescription\<close> returns an error, \<open>editIssueTitleAndDesc\<close>
  returns before the deferred \<open>DeleteFile\<close> is registered: with an editor that
  writes its template file and then fails, the file \<open>ISSUE_EDITMSG\<close> still exists when the
  function has returned. When the editing succeeds the file is removed.
\<close>

theorem editIssueTitleAndDesc_error_leaves_file:
  "editIssueTitleAndDesc tempFileEditor ''title'' (Inl (Err ''editor failed'')) {} =
     (Inl (Err ''editor failed''), {''ISSUE_EDITMSG''}) \<and>
   editIssueTitleAndDesc tempFileEditor ''title'' (Inr (''title'', ''body'')) {} =
     (Inr (''title'', ''body''), {})"
  by (simp add: editIssueTitleAndDesc_def tempFileEditor_def)

end
